theory Spec2Isabelle
  imports Main "HOL-Library.Sublist"
begin

section \<open>JavaScript values\<close>

text \<open>
  The payload handed to \<open>_parseResponse\<close> is the result of \<open>apiResponse.json()\<close>: an
  arbitrary JSON value. Reading a property that is missing yields \<open>undefined\<close>, so the
  values the parser computes with are the JSON values plus \<open>undefined\<close>. An object is
  the list of its own key/value pairs. Numbers are taken as integers; the code only asks
  whether a number is zero. Properties inherited from a prototype are not part of the
  model, except the two the code uses: \<open>length\<close> of strings and arrays, and the method
  \<open>toLowerCase\<close> of strings.
\<close>

datatype jsval =
    JUndefined
  | JNull
  | JBool bool
  | JNum int
  | JStr string
  | JArr "jsval list"
  | JObj "(string \<times> jsval) list"

text \<open>Truthiness, as used by \<open>||\<close>, \<open>!\<close> and \<open>if\<close>.\<close>

fun truthy :: "jsval \<Rightarrow> bool" where
  "truthy JUndefined = False"
| "truthy JNull = False"
| "truthy (JBool b) = b"
| "truthy (JNum n) = (n \<noteq> 0)"
| "truthy (JStr s) = (s \<noteq> [])"
| "truthy (JArr xs) = True"
| "truthy (JObj kvs) = True"

text \<open>\<open>a || b\<close>\<close>

definition jsOr :: "jsval \<Rightarrow> jsval \<Rightarrow> jsval" where
  "jsOr a b = (if truthy a then a else b)"

fun nullish :: "jsval \<Rightarrow> bool" where
  "nullish JUndefined = True"
| "nullish JNull = True"
| "nullish v = False"

text \<open>
  A property key that is a canonical array index: a decimal numeral without a leading
  zero. \<open>stores[0]\<close> reads the key \<open>"0"\<close>.
\<close>

definition digitValue :: "char \<Rightarrow> nat option" where
  "digitValue c = map_of (zip ''0123456789'' [0 ..< 10]) c"

fun decimalValue :: "nat \<Rightarrow> string \<Rightarrow> nat option" where
  "decimalValue acc [] = Some acc"
| "decimalValue acc (c # cs) =
     (case digitValue c of None \<Rightarrow> None | Some d \<Rightarrow> decimalValue (10 * acc + d) cs)"

definition arrayIndex :: "string \<Rightarrow> nat option" where
  "arrayIndex k =
     (if k = [] \<or> (hd k = CHR ''0'' \<and> k \<noteq> ''0'') then None else decimalValue 0 k)"

text \<open>
  Property access \<open>v[k]\<close> / \<open>v.k\<close>. On \<open>undefined\<close> and \<open>null\<close> it throws a TypeError,
  whose message is the result \<open>Inl\<close>.
\<close>

definition cannotRead :: "string \<Rightarrow> string \<Rightarrow> string" where
  "cannotRead what k =
     ''Cannot read properties of '' @ what @ '' (reading '' @ [CHR 0x27] @ k @ [CHR 0x27] @ '')''"

fun getProp :: "jsval \<Rightarrow> string \<Rightarrow> string + jsval" where
  "getProp JUndefined k = Inl (cannotRead ''undefined'' k)"
| "getProp JNull k = Inl (cannotRead ''null'' k)"
| "getProp (JBool b) k = Inr JUndefined"
| "getProp (JNum n) k = Inr JUndefined"
| "getProp (JStr s) k =
     Inr (if k = ''length'' then JNum (int (length s))
          else (case arrayIndex k of
                  Some i \<Rightarrow> if i < length s then JStr [s ! i] else JUndefined
                | None \<Rightarrow> JUndefined))"
| "getProp (JArr xs) k =
     Inr (if k = ''length'' then JNum (int (length xs))
          else (case arrayIndex k of
                  Some i \<Rightarrow> if i < length xs then xs ! i else JUndefined
                | None \<Rightarrow> JUndefined))"
| "getProp (JObj kvs) k = Inr (case map_of kvs k of Some v \<Rightarrow> v | None \<Rightarrow> JUndefined)"

text \<open>Optional chaining \<open>v?.k\<close>.\<close>

definition optProp :: "jsval \<Rightarrow> string \<Rightarrow> string + jsval" where
  "optProp v k = (if nullish v then Inr JUndefined else getProp v k)"

text \<open>Sequencing of steps that may throw: the first exception ends the \<open>try\<close> block.\<close>

definition thenDo :: "'e + 'a \<Rightarrow> ('a \<Rightarrow> 'e + 'b) \<Rightarrow> 'e + 'b" where
  "thenDo m f = (case m of Inl e \<Rightarrow> Inl e | Inr x \<Rightarrow> f x)"

section \<open>Strings\<close>

text \<open>
  \<open>String.prototype.toLowerCase\<close> on the letters A to Z; every other character is
  left as it is. The phrase the parser looks for consists of ASCII letters and a space.
\<close>

definition toLowerChar :: "char \<Rightarrow> char" where
  "toLowerChar c =
     (case map_of (zip ''ABCDEFGHIJKLMNOPQRSTUVWXYZ'' ''abcdefghijklmnopqrstuvwxyz'') c of
        Some l \<Rightarrow> l
      | None \<Rightarrow> c)"

definition toLowerCase :: "string \<Rightarrow> string" where
  "toLowerCase s = map toLowerChar s"

text \<open>\<open>s.includes(p)\<close>: the pattern occurs at some position of \<open>s\<close>.\<close>

fun str_includes :: "string \<Rightarrow> string \<Rightarrow> bool" where
  "str_includes [] p = (p = [])"
| "str_includes (c # cs) p = (prefix p (c # cs) \<or> str_includes cs p)"

text \<open>
  The method call \<open>v.toLowerCase()\<close> on an arbitrary value: only a string has the
  method.
\<close>

fun callToLowerCase :: "jsval \<Rightarrow> string + string" where
  "callToLowerCase (JStr s) = Inr (toLowerCase s)"
| "callToLowerCase JUndefined = Inl (cannotRead ''undefined'' ''toLowerCase'')"
| "callToLowerCase JNull = Inl (cannotRead ''null'' ''toLowerCase'')"
| "callToLowerCase v = Inl ''pickupSearchQuote.toLowerCase is not a function''"

section \<open>AppleStoreService._parseResponse\<close>

text \<open>
  The object the parser returns and the object the monitor remembers share the fields
  \<open>available\<close> and \<open>message\<close>. A field the object literal leaves out reads
  \<open>undefined\<close>.
\<close>

record snapshot =
  available :: bool
  message :: jsval

record stockData = snapshot +
  storeName :: jsval
  rawData :: jsval

text \<open>
  The body of the \<open>try\<close> block; \<open>Inl\<close> is the message of the exception it throws.
  \<open>this.partNumber\<close>, which the service reads from the configuration, is the parameter
  \<open>partNumber\<close>.
\<close>

definition parseBody :: "string \<Rightarrow> jsval \<Rightarrow> string + stockData" where
  "parseBody partNumber data =
     thenDo (getProp data ''body'') (\<lambda>body.
     thenDo (optProp body ''content'') (\<lambda>content.
     thenDo (optProp content ''pickupMessage'') (\<lambda>pickupMessage.
     thenDo (optProp pickupMessage ''stores'') (\<lambda>found.
     let stores = jsOr found (JArr []) in
     thenDo (getProp stores ''length'') (\<lambda>len.
     if len = JNum 0 then
       Inr \<lparr>available = False, message = JStr ''No store data available'',
            storeName = JUndefined, rawData = data\<rparr>
     else
       thenDo (getProp stores ''0'') (\<lambda>store.
       thenDo (getProp store ''partsAvailability'') (\<lambda>pa.
       let partsAvailability = jsOr pa (JObj []) in
       thenDo (getProp partsAvailability partNumber) (\<lambda>partData.
       if \<not> truthy partData then
         Inr \<lparr>available = False, message = JStr ''Part not found in store data'',
              storeName = JUndefined, rawData = data\<rparr>
       else
         thenDo (getProp partData ''pickupSearchQuote'') (\<lambda>q1.
         let pickupSearchQuote = jsOr q1 (JStr []) in
         thenDo (getProp partData ''storePickupQuote'') (\<lambda>q2.
         let storePickupQuote = jsOr q2 (JStr []) in
         thenDo (callToLowerCase pickupSearchQuote) (\<lambda>lowered.
         let isAvailable = str_includes lowered ''available today'' in
         thenDo (getProp store ''storeName'') (\<lambda>name.
         Inr \<lparr>available = isAvailable,
              message = jsOr (jsOr pickupSearchQuote storePickupQuote) (JStr ''Unknown status''),
              storeName = jsOr name (JStr ''Unknown Store''),
              rawData = data\<rparr>))))))))))))"

text \<open>The \<open>catch\<close> wraps every exception of the body.\<close>

definition parseResponse :: "string \<Rightarrow> jsval \<Rightarrow> string + stockData" where
  "parseResponse partNumber data =
     (case parseBody partNumber data of
        Inl m \<Rightarrow> Inl (''Response parsing failed: '' @ m)
      | Inr r \<Rightarrow> Inr r)"

text \<open>
  The places of the payload the parser visits, as total functions: a read that would
  throw yields \<open>undefined\<close> here. They name the parts of the payload the properties
  of the parser are about: the store list (\<open>data.body?.content?.pickupMessage?.stores || []\<close>),
  its first entry, the entry of the part in that store, and the two quote fields.
\<close>

definition field :: "jsval \<Rightarrow> string \<Rightarrow> jsval" where
  "field v k = (case getProp v k of Inr x \<Rightarrow> x | Inl m \<Rightarrow> JUndefined)"

definition optChain :: "jsval \<Rightarrow> string \<Rightarrow> jsval" where
  "optChain v k = (if nullish v then JUndefined else field v k)"

definition storeList :: "jsval \<Rightarrow> jsval" where
  "storeList data =
     jsOr (optChain (optChain (optChain (field data ''body'') ''content'') ''pickupMessage'')
             ''stores'')
          (JArr [])"

definition storeListEmpty :: "jsval \<Rightarrow> bool" where
  "storeListEmpty data = (field (storeList data) ''length'' = JNum 0)"

definition storeEntry :: "jsval \<Rightarrow> jsval" where
  "storeEntry data = field (storeList data) ''0''"

definition partEntry :: "string \<Rightarrow> jsval \<Rightarrow> jsval" where
  "partEntry partNumber data =
     field (jsOr (field (storeEntry data) ''partsAvailability'') (JObj [])) partNumber"

definition searchQuote :: "string \<Rightarrow> jsval \<Rightarrow> jsval" where
  "searchQuote partNumber data =
     jsOr (field (partEntry partNumber data) ''pickupSearchQuote'') (JStr [])"

definition pickupQuote :: "string \<Rightarrow> jsval \<Rightarrow> jsval" where
  "pickupQuote partNumber data =
     jsOr (field (partEntry partNumber data) ''storePickupQuote'') (JStr [])"

definition absentError :: "jsval \<Rightarrow> string \<Rightarrow> string" where
  "absentError v k = (case getProp v k of Inl m \<Rightarrow> m | Inr x \<Rightarrow> [])"


text \<open>
  A case-insensitive substring match, said without reference to the code: some substring
  of the text equals the phrase up to the case of its letters.
\<close>

definition equalsIgnoreCase :: "string \<Rightarrow> string \<Rightarrow> bool" where
  "equalsIgnoreCase a b = (map toLowerChar a = map toLowerChar b)"

definition containsIgnoreCase :: "string \<Rightarrow> string \<Rightarrow> bool" where
  "containsIgnoreCase text phrase =
     (\<exists>pre mid post. text = pre @ mid @ post \<and> equalsIgnoreCase mid phrase)"

text \<open>
  A payload of the shape the upstream sends: one store, holding the given entry for the
  given part.
\<close>

definition payloadWith :: "string \<Rightarrow> jsval \<Rightarrow> jsval" where
  "payloadWith partNumber entry =
     JObj [(''body'', JObj [(''content'', JObj [(''pickupMessage'', JObj [(''stores'',
       JArr [JObj [(''storeName'', JStr ''The Gardens Mall''),
                   (''partsAvailability'', JObj [(partNumber, entry)])]])])])])]"

section \<open>AppleStoreService.checkAvailability\<close>

text \<open>
  What one attempt meets: an exception before a response is in hand (browser start,
  navigation, no response captured), or a response with its status code and the outcome
  of \<open>apiResponse.json()\<close>, which throws or gives the payload. The upstream is the
  sequence of what the successive attempts meet.
\<close>

datatype attempt =
    Failed string
  | Response nat "string + jsval"

record fetcher =
  attempts :: nat
  delays :: "nat list"

definition maxRetries :: nat where
  "maxRetries = 3"

definition digitChar :: "nat \<Rightarrow> char" where
  "digitChar d = ''0123456789'' ! d"

fun showNat :: "nat \<Rightarrow> string" where
  "showNat n = (if n < 10 then [digitChar n] else showNat (n div 10) @ [digitChar (n mod 10)])"

declare showNat.simps [simp del]

text \<open>
  The \<open>try\<close> block of one invocation, up to the point where it returns, throws, or is
  about to call itself again after a 541.
\<close>

datatype tryOutcome =
    Completed stockData
  | BotRetry nat
  | Raised string

definition tryBlock :: "string \<Rightarrow> attempt \<Rightarrow> nat \<Rightarrow> tryOutcome" where
  "tryBlock partNumber met retryCount =
     (case met of
        Failed m \<Rightarrow> Raised m
      | Response statusCode body \<Rightarrow>
          if statusCode \<noteq> 200 then
            (if statusCode = 541 \<and> retryCount < maxRetries
             then BotRetry ((retryCount + 1) * 10000)
             else Raised (''Apple API responded with status '' @ showNat statusCode))
          else
            (case body of
               Inl m \<Rightarrow> Raised m
             | Inr data \<Rightarrow>
                 (case parseResponse partNumber data of
                    Inl m \<Rightarrow> Raised m
                  | Inr r \<Rightarrow> Completed r)))"

text \<open>What the \<open>catch\<close> block throws when it does not retry.\<close>

definition rethrown :: "string \<Rightarrow> string" where
  "rethrown m =
     (if str_includes m ''status'' then m
      else if str_includes m ''timeout'' then
        ''Request timeout - Apple API did not respond in time''
      else ''Request failed: '' @ m)"

text \<open>
  \<open>checkAvailability(retryCount)\<close>. The recursive call after a 541 stands inside the
  \<open>try\<close> block, so an exception it throws reaches the \<open>catch\<close> block of the calling
  invocation; the recursive call of the \<open>catch\<close> block is outside it. The result is
  the value returned or the message of the exception thrown, with the attempts made and
  the delays waited. Closing the page and the browser is taken not to throw.
\<close>

function checkAvailability ::
  "string \<Rightarrow> (nat \<Rightarrow> attempt) \<Rightarrow> nat \<Rightarrow> fetcher \<Rightarrow> (string + stockData) \<times> fetcher"
where
  "checkAvailability partNumber upstream retryCount f =
     (let f1 = f\<lparr>attempts := attempts f + 1\<rparr>;
          tried =
            (case tryBlock partNumber (upstream (attempts f)) retryCount of
               Completed r \<Rightarrow> (Inr r, f1)
             | BotRetry retryDelay \<Rightarrow>
                 checkAvailability partNumber upstream (retryCount + 1)
                   (f1\<lparr>delays := delays f1 @ [retryDelay]\<rparr>)
             | Raised m \<Rightarrow> (Inl m, f1))
      in case tried of
           (Inr r, f2) \<Rightarrow> (Inr r, f2)
         | (Inl m, f2) \<Rightarrow>
             if \<not> str_includes m ''status'' \<and> retryCount < maxRetries then
               checkAvailability partNumber upstream (retryCount + 1)
                 (f2\<lparr>delays := delays f2 @ [(retryCount + 1) * 5000]\<rparr>)
             else (Inl (rethrown m), f2))"
  by pat_completeness auto
termination
  by (relation "measure (\<lambda>(partNumber, upstream, retryCount, f). maxRetries - retryCount)")
     (auto simp: tryBlock_def split: attempt.splits if_splits sum.splits)

declare checkAvailability.simps [simp del]

text \<open>An upstream that meets the same thing at every attempt.\<close>

definition alwaysMeets :: "attempt \<Rightarrow> nat \<Rightarrow> attempt" where
  "alwaysMeets met i = met"

section \<open>MonitoringService\<close>

record knownStatus = snapshot +
  timestamp :: string

text \<open>
  The fields of the instance, and after them what its methods do outside it: the
  interval timers armed by \<open>setInterval\<close> and not cleared, the next timer handle, the
  calls of \<open>pushoverService.notifyStockAvailable\<close>, and the number of calls of
  \<open>appleStoreService.cleanup\<close>. Logging is left out.
\<close>

record monitor =
  intervalMs :: nat
  isRunning :: bool
  intervalId :: "nat option"
  lastKnownStatus :: "knownStatus option"
  checkCount :: nat
  timers :: "nat list"
  nextTimer :: nat
  notified :: "stockData list"
  cleanups :: nat

definition newMonitor :: "nat \<Rightarrow> monitor" where
  "newMonitor interval =
     \<lparr>intervalMs = interval, isRunning = False, intervalId = None, lastKnownStatus = None,
      checkCount = 0, timers = [], nextTimer = 1, notified = [], cleanups = 0\<rparr>"

text \<open>
  \<open>!==\<close> on the two messages is inequality of values, as it is in JavaScript for
  strings and the other primitive values. (For two arrays or objects JavaScript compares
  identity, which this model does not track; a message is an array or an object only when
  \<open>storePickupQuote\<close> is one.)
\<close>

definition detectStatusChange :: "monitor \<Rightarrow> stockData \<Rightarrow> bool" where
  "detectStatusChange this currentStock =
     (case lastKnownStatus this of
        None \<Rightarrow> False
      | Some previous \<Rightarrow>
          (let availabilityChanged = (available previous \<noteq> available currentStock);
               messageChanged = (message previous \<noteq> message currentStock)
           in if availabilityChanged \<or> messageChanged then True else False))"

text \<open>
  \<open>notifyStockAvailable\<close> returns whether the delivery succeeded and never throws;
  the result is only logged.
\<close>

definition handleStatusChange :: "stockData \<Rightarrow> monitor \<Rightarrow> monitor" where
  "handleStatusChange stock this =
     (if available stock then this\<lparr>notified := notified this @ [stock]\<rparr> else this)"

text \<open>
  \<open>_performCheck\<close> runs up to its first \<open>await\<close> when it is called (\<open>beginCheck\<close>), and
  the rest when \<open>checkAvailability\<close> has settled (\<open>completeCheck\<close>), with the value
  returned or the exception thrown.
\<close>

definition beginCheck :: "monitor \<Rightarrow> monitor" where
  "beginCheck this = this\<lparr>checkCount := checkCount this + 1\<rparr>"

definition completeCheck :: "string + stockData \<Rightarrow> string \<Rightarrow> monitor \<Rightarrow> monitor" where
  "completeCheck fetched now this =
     (case fetched of
        Inl err \<Rightarrow> this\<lparr>cleanups := cleanups this + 1\<rparr>
      | Inr stock \<Rightarrow>
          (let statusChanged = detectStatusChange this stock;
               isFirstCheck = (lastKnownStatus this = None);
               this1 = (if statusChanged then handleStatusChange stock this
                        else if isFirstCheck \<and> available stock then handleStatusChange stock this
                        else this);
               this2 = this1\<lparr>lastKnownStatus :=
                         Some \<lparr>available = available stock, message = message stock,
                               timestamp = now\<rparr>\<rparr>
           in this2\<lparr>cleanups := cleanups this2 + 1\<rparr>))"

definition performCheck ::
  "string \<Rightarrow> (nat \<Rightarrow> attempt) \<Rightarrow> string \<Rightarrow> monitor \<Rightarrow> monitor" where
  "performCheck partNumber upstream now this =
     completeCheck
       (fst (checkAvailability partNumber upstream 0 \<lparr>attempts = 0, delays = []\<rparr>))
       now (beginCheck this)"

text \<open>
  \<open>start\<close> and \<open>stop\<close>. The result is \<open>Inr\<close> of the state when the call returns, and
  \<open>Inl\<close> of the message when it throws to the caller. The first check is begun inside
  \<open>start\<close> and completes later.
\<close>

definition start :: "monitor \<Rightarrow> string + monitor" where
  "start this =
     (if isRunning this then Inr this
      else
        (let this1 = beginCheck (this\<lparr>isRunning := True\<rparr>);
             handle = nextTimer this1
         in Inr (this1\<lparr>intervalId := Some handle, timers := timers this1 @ [handle],
                       nextTimer := handle + 1\<rparr>)))"

definition stop :: "monitor \<Rightarrow> string + monitor" where
  "stop this =
     (if \<not> isRunning this then Inr this
      else
        (let this1 = this\<lparr>isRunning := False\<rparr>;
             this2 = (case intervalId this1 of
                        Some handle \<Rightarrow>
                          this1\<lparr>timers := removeAll handle (timers this1), intervalId := None\<rparr>
                      | None \<Rightarrow> this1)
         in Inr (this2\<lparr>cleanups := cleanups this2 + 1\<rparr>)))"

section \<open>Scenarios\<close>

text \<open>
  An upstream that answers every attempt with status 200 and a payload whose part entry
  carries the given \<open>pickupSearchQuote\<close>, and the object the parser returns for it.
\<close>

definition upstreamQuoting :: "string \<Rightarrow> string \<Rightarrow> nat \<Rightarrow> attempt" where
  "upstreamQuoting partNumber quote =
     alwaysMeets (Response 200 (Inr (payloadWith partNumber (JObj [(''pickupSearchQuote'', JStr quote)]))))"

definition quoted :: "string \<Rightarrow> string \<Rightarrow> bool \<Rightarrow> stockData" where
  "quoted partNumber quote avail =
     \<lparr>available = avail, message = JStr quote, storeName = JStr ''The Gardens Mall'',
      rawData = payloadWith partNumber (JObj [(''pickupSearchQuote'', JStr quote)])\<rparr>"

text \<open>A sequence of checks, each run to completion before the next begins.\<close>

fun performChecks :: "string \<Rightarrow> (string \<times> (nat \<Rightarrow> attempt)) list \<Rightarrow> monitor \<Rightarrow> monitor" where
  "performChecks partNumber [] this = this"
| "performChecks partNumber ((now, upstream) # ticks) this =
     performChecks partNumber ticks (performCheck partNumber upstream now this)"


section \<open>Properties of the parser\<close>

lemma thenDo_simps [simp]: "thenDo (Inr x) f = f x" "thenDo (Inl e) f = Inl e"
  by (simp_all add: thenDo_def)

lemma getProp_cases: "getProp v k = (if nullish v then Inl (absentError v k) else Inr (field v k))"
  by (cases v) (simp_all add: field_def absentError_def)

lemma optProp_chain: "optProp v k = Inr (optChain v k)"
  by (simp add: optProp_def optChain_def getProp_cases)

lemma truthy_present: "truthy v \<Longrightarrow> \<not> nullish v"
  by (cases v) simp_all

lemma jsOr_present: "\<not> nullish b \<Longrightarrow> \<not> nullish (jsOr a b)"
  by (simp add: jsOr_def truthy_present)

lemma field_nullish: "nullish v \<Longrightarrow> field v k = JUndefined"
  by (cases v) (simp_all add: field_def)

lemma field_empty_array: "field (JArr []) ''length'' = JNum 0"
  by (simp add: field_def)

lemma field_empty_object: "field (JObj []) k = JUndefined"
  by (simp add: field_def)

lemma arrayIndex_zero: "arrayIndex ''0'' = Some 0"
  by code_simp

lemma parseBody_cases:
  "parseBody pn data =
    (if nullish data then Inl (absentError data ''body'')
     else if storeListEmpty data then
       Inr \<lparr>available = False, message = JStr ''No store data available'',
            storeName = JUndefined, rawData = data\<rparr>
     else if nullish (storeEntry data) then Inl (absentError (storeEntry data) ''partsAvailability'')
     else if \<not> truthy (partEntry pn data) then
       Inr \<lparr>available = False, message = JStr ''Part not found in store data'',
            storeName = JUndefined, rawData = data\<rparr>
     else (case callToLowerCase (searchQuote pn data) of
             Inl m \<Rightarrow> Inl m
           | Inr lowered \<Rightarrow>
               Inr \<lparr>available = str_includes lowered ''available today'',
                    message = jsOr (jsOr (searchQuote pn data) (pickupQuote pn data)) (JStr ''Unknown status''),
                    storeName = jsOr (field (storeEntry data) ''storeName'') (JStr ''Unknown Store''),
                    rawData = data\<rparr>))"
  by (simp add: parseBody_def Let_def optProp_chain getProp_cases storeList_def storeEntry_def
      storeListEmpty_def
      partEntry_def searchQuote_def pickupQuote_def jsOr_present truthy_present
      split: sum.splits)

lemma str_includes_sublist: "str_includes s p = sublist p s"
  by (induction s) (simp_all add: sublist_Cons_right)

lemma lowered_includes:
  assumes "map toLowerChar p = p"
  shows "str_includes (toLowerCase q) p = containsIgnoreCase q p"
proof
  assume "str_includes (toLowerCase q) p"
  then obtain ps ss where "map toLowerChar q = ps @ p @ ss"
    by (auto simp: str_includes_sublist sublist_def toLowerCase_def)
  then obtain us vs where q: "q = us @ vs" and "p @ ss = map toLowerChar vs"
    by (auto simp: map_eq_append_conv)
  then obtain ms ws where vs: "vs = ms @ ws" and p: "p = map toLowerChar ms"
    by (metis append_eq_map_conv)
  from p assms have "equalsIgnoreCase ms p"
    unfolding equalsIgnoreCase_def by simp
  moreover from q vs have "q = us @ ms @ ws"
    by simp
  ultimately show "containsIgnoreCase q p"
    unfolding containsIgnoreCase_def by blast
next
  assume "containsIgnoreCase q p"
  then obtain pre mid post where "q = pre @ mid @ post" and "map toLowerChar mid = p"
    using assms by (auto simp: containsIgnoreCase_def equalsIgnoreCase_def)
  then have "toLowerCase q = map toLowerChar pre @ p @ map toLowerChar post"
    by (simp add: toLowerCase_def)
  then show "str_includes (toLowerCase q) p"
    by (simp add: str_includes_sublist)
qed

lemma phrase_lower: "map toLowerChar ''available today'' = ''available today''"
  by (simp add: toLowerChar_def)

lemma available_lowered:
  "str_includes (toLowerCase q) ''available today'' = containsIgnoreCase q ''available today''"
  by (rule lowered_includes [OF phrase_lower])


lemma parseResponse_cases:
  "parseResponse pn data =
    (if nullish data then Inl (''Response parsing failed: '' @ absentError data ''body'')
     else if storeListEmpty data then
       Inr \<lparr>available = False, message = JStr ''No store data available'',
            storeName = JUndefined, rawData = data\<rparr>
     else if nullish (storeEntry data) then
       Inl (''Response parsing failed: '' @ absentError (storeEntry data) ''partsAvailability'')
     else if \<not> truthy (partEntry pn data) then
       Inr \<lparr>available = False, message = JStr ''Part not found in store data'',
            storeName = JUndefined, rawData = data\<rparr>
     else (case searchQuote pn data of
             JStr s \<Rightarrow>
               Inr \<lparr>available = containsIgnoreCase s ''available today'',
                    message = jsOr (jsOr (searchQuote pn data) (pickupQuote pn data)) (JStr ''Unknown status''),
                    storeName = jsOr (field (storeEntry data) ''storeName'') (JStr ''Unknown Store''),
                    rawData = data\<rparr>
           | _ \<Rightarrow> Inl ''Response parsing failed: pickupSearchQuote.toLowerCase is not a function''))"
proof -
  have "\<not> nullish (searchQuote pn data)"
    by (simp add: searchQuote_def jsOr_present)
  then show ?thesis
    by (cases "searchQuote pn data")
       (simp_all add: parseResponse_def parseBody_cases available_lowered)
qed

lemma storeListEmpty_nullish: "nullish data \<Longrightarrow> storeListEmpty data"
  by (simp add: storeListEmpty_def storeList_def field_nullish optChain_def jsOr_def
      field_empty_array)

lemma partEntry_absent: "nullish (storeEntry data) \<Longrightarrow> partEntry pn data = JUndefined"
  by (simp add: partEntry_def field_nullish jsOr_def field_empty_object)

lemma present_data: "\<not> storeListEmpty data \<Longrightarrow> \<not> nullish data"
  using storeListEmpty_nullish by blast

lemma present_store: "truthy (partEntry pn data) \<Longrightarrow> \<not> nullish (storeEntry data)"
  using partEntry_absent [of data pn] by auto

lemma parseResponse_part_present:
  assumes "\<not> storeListEmpty data" and "truthy (partEntry pn data)"
  shows "parseResponse pn data =
     (case searchQuote pn data of
        JStr s \<Rightarrow>
          Inr \<lparr>available = containsIgnoreCase s ''available today'',
               message = jsOr (jsOr (searchQuote pn data) (pickupQuote pn data)) (JStr ''Unknown status''),
               storeName = jsOr (field (storeEntry data) ''storeName'') (JStr ''Unknown Store''),
               rawData = data\<rparr>
      | _ \<Rightarrow> Inl ''Response parsing failed: pickupSearchQuote.toLowerCase is not a function'')"
  using assms present_data [OF assms(1)] present_store [OF assms(2)]
  by (simp add: parseResponse_cases)



lemma payloadWith_places:
  "\<not> storeListEmpty (payloadWith pn e)"
  "partEntry pn (payloadWith pn e) = e"
  "field (storeEntry (payloadWith pn e)) ''storeName'' = JStr ''The Gardens Mall''"
  by (simp_all add: payloadWith_def storeListEmpty_def storeList_def storeEntry_def partEntry_def
      optChain_def jsOr_def field_def arrayIndex_zero)











section \<open>Properties of the fetch\<close>




lemma tryBlock_failed: "tryBlock pn (Failed m) retryCount = Raised m"
  by (simp add: tryBlock_def)



lemma check_raised_retry:
  assumes "tryBlock pn (upstream (attempts f)) retryCount = Raised m"
    and "\<not> str_includes m ''status''" and "retryCount < maxRetries"
  shows "checkAvailability pn upstream retryCount f =
           checkAvailability pn upstream (retryCount + 1)
             (f\<lparr>attempts := attempts f + 1, delays := delays f @ [(retryCount + 1) * 5000]\<rparr>)"
  using assms
  by (subst checkAvailability.simps) simp

lemma check_raised_final:
  assumes "tryBlock pn (upstream (attempts f)) retryCount = Raised m"
    and "str_includes m ''status'' \<or> maxRetries \<le> retryCount"
  shows "checkAvailability pn upstream retryCount f =
           (Inl (rethrown m), f\<lparr>attempts := attempts f + 1\<rparr>)"
  using assms
  by (subst checkAvailability.simps) auto

lemma check_completed:
  assumes "tryBlock pn (upstream (attempts f)) retryCount = Completed r"
  shows "checkAvailability pn upstream retryCount f = (Inr r, f\<lparr>attempts := attempts f + 1\<rparr>)"
  using assms
  by (subst checkAvailability.simps) simp


lemma always_raised_run:
  assumes raised: "\<And>retryCount. tryBlock pn met retryCount = Raised m"
    and nostatus: "\<not> str_includes m ''status''"
  shows "checkAvailability pn (alwaysMeets met) 0 f =
           (Inl (rethrown m),
            f\<lparr>attempts := attempts f + 4, delays := delays f @ [5000, 10000, 15000]\<rparr>)"
proof -
  let ?up = "alwaysMeets met"
  have r: "tryBlock pn (?up (attempts g)) retryCount = Raised m" for g retryCount
    by (simp add: alwaysMeets_def raised)
  have three: "checkAvailability pn ?up 3 g = (Inl (rethrown m), g\<lparr>attempts := attempts g + 1\<rparr>)" for g
    using check_raised_final [where upstream = ?up and f = g and retryCount = 3 and m = m and pn = pn]
      r [of g 3]
    by (simp add: maxRetries_def)
  have two: "checkAvailability pn ?up 2 g =
      (Inl (rethrown m), g\<lparr>attempts := attempts g + 2, delays := delays g @ [15000]\<rparr>)" for g
    using check_raised_retry [where upstream = ?up and f = g and retryCount = 2 and m = m and pn = pn]
      r [of g 2] nostatus
    by (simp add: maxRetries_def three)
  have one: "checkAvailability pn ?up 1 g =
      (Inl (rethrown m), g\<lparr>attempts := attempts g + 3, delays := delays g @ [10000, 15000]\<rparr>)" for g
    using check_raised_retry [where upstream = ?up and f = g and retryCount = 1 and m = m and pn = pn]
      r [of g 1] nostatus
    by (simp add: maxRetries_def two one_add_one del: One_nat_def)
  show ?thesis
    using check_raised_retry [where upstream = ?up and f = f and retryCount = 0 and m = m and pn = pn]
      r [of f 0] nostatus
    by (simp add: maxRetries_def one del: One_nat_def)
qed

lemma absentError_no_status:
  "nullish v \<Longrightarrow>
     \<not> str_includes (''Response parsing failed: '' @ absentError v ''body'') ''status''"
  "nullish v \<Longrightarrow>
     \<not> str_includes (''Response parsing failed: '' @ absentError v ''partsAvailability'') ''status''"
  by (cases v; simp add: absentError_def cannotRead_def; code_simp)+

lemma parse_error_no_status:
  assumes "parseResponse pn data = Inl e"
  shows "\<not> str_includes e ''status''"
proof -
  have "\<not> str_includes
            ''Response parsing failed: pickupSearchQuote.toLowerCase is not a function'' ''status''"
    by code_simp
  with assms absentError_no_status [of data] absentError_no_status [of "storeEntry data"]
  show ?thesis
    by (auto simp: parseResponse_cases split: if_splits jsval.splits)
qed

lemma fetch_quoting:
  assumes "q \<noteq> []"
  shows "checkAvailability pn (upstreamQuoting pn q) 0 \<lparr>attempts = 0, delays = []\<rparr> =
     (Inr (quoted pn q (containsIgnoreCase q ''available today'')), \<lparr>attempts = 1, delays = []\<rparr>)"
proof -
  let ?D = "payloadWith pn (JObj [(''pickupSearchQuote'', JStr q)])"
  have sq: "searchQuote pn ?D = JStr q" and pq: "pickupQuote pn ?D = JStr []"
    using assms
    by (simp_all add: searchQuote_def pickupQuote_def payloadWith_places jsOr_def field_def)
  have "parseResponse pn ?D = Inr (quoted pn q (containsIgnoreCase q ''available today''))"
    using assms
    by (simp add: parseResponse_part_present payloadWith_places sq pq jsOr_def quoted_def)
  then have "tryBlock pn (upstreamQuoting pn q (attempts \<lparr>attempts = 0, delays = []\<rparr>)) 0
               = Completed (quoted pn q (containsIgnoreCase q ''available today''))"
    by (simp add: tryBlock_def upstreamQuoting_def alwaysMeets_def)
  then show ?thesis
    using check_completed [of pn "upstreamQuoting pn q" "\<lparr>attempts = 0, delays = []\<rparr>" 0]
    by simp
qed

lemma fetch_unavailable:
  "fst (checkAvailability pn (upstreamQuoting pn ''Currently unavailable'') 0
          \<lparr>attempts = 0, delays = []\<rparr>)
     = Inr (quoted pn ''Currently unavailable'' False)"
proof -
  have "\<not> str_includes (toLowerCase ''Currently unavailable'') ''available today''"
    by code_simp
  then have "\<not> containsIgnoreCase ''Currently unavailable'' ''available today''"
    by (simp add: available_lowered)
  then show ?thesis
    by (simp add: fetch_quoting)
qed

lemma fetch_available:
  "fst (checkAvailability pn (upstreamQuoting pn ''Available Today'') 0
          \<lparr>attempts = 0, delays = []\<rparr>)
     = Inr (quoted pn ''Available Today'' True)"
proof -
  have "str_includes (toLowerCase ''Available Today'') ''available today''"
    by code_simp
  then have "containsIgnoreCase ''Available Today'' ''available today''"
    by (simp add: available_lowered)
  then show ?thesis
    by (simp add: fetch_quoting)
qed

lemma fetch_reset:
  "fst (checkAvailability pn (alwaysMeets (Failed ''net::ERR_CONNECTION_RESET'')) 0
          \<lparr>attempts = 0, delays = []\<rparr>)
     = Inl ''Request failed: net::ERR_CONNECTION_RESET''"
proof -
  have "\<not> str_includes ''net::ERR_CONNECTION_RESET'' ''status''"
    and "\<not> str_includes ''net::ERR_CONNECTION_RESET'' ''timeout''"
    by code_simp+
  then show ?thesis
    by (simp add: always_raised_run tryBlock_failed rethrown_def)
qed

lemma fetch_null_payload:
  "fst (checkAvailability pn (alwaysMeets (Response 200 (Inr JNull))) 0
          \<lparr>attempts = 0, delays = []\<rparr>)
     = Inl (''Request failed: Response parsing failed: '' @ cannotRead ''null'' ''body'')"
proof -
  let ?e = "''Response parsing failed: '' @ cannotRead ''null'' ''body''"
  have p: "parseResponse pn JNull = Inl ?e"
    by (simp add: parseResponse_cases absentError_def)
  then have r: "tryBlock pn (Response 200 (Inr JNull)) retryCount = Raised ?e" for retryCount
    by (simp add: tryBlock_def)
  have n: "\<not> str_includes ?e ''status''"
    using p by (rule parse_error_no_status)
  have t: "\<not> str_includes ?e ''timeout''"
    unfolding cannotRead_def by code_simp
  from always_raised_run [of pn "Response 200 (Inr JNull)" ?e, OF r n] n t show ?thesis
    by (simp add: rethrown_def)
qed




section \<open>Properties of the monitor\<close>

lemma detectStatusChange_begin [simp]:
  "detectStatusChange (beginCheck this) stock = detectStatusChange this stock"
  by (simp add: detectStatusChange_def beginCheck_def)

lemma notified_completeCheck:
  "notified (completeCheck (Inr stock) now this) =
     (if (detectStatusChange this stock \<and> available stock) \<or>
         (lastKnownStatus this = None \<and> available stock)
      then notified this @ [stock] else notified this)"
  by (simp add: completeCheck_def handleStatusChange_def Let_def)

lemma completeCheck_failed:
  "completeCheck (Inl err) now this = this\<lparr>cleanups := cleanups this + 1\<rparr>"
  by (simp add: completeCheck_def)

lemma lastKnownStatus_performCheck:
  "fst (checkAvailability pn upstream 0 \<lparr>attempts = 0, delays = []\<rparr>) = Inr stock \<Longrightarrow>
     lastKnownStatus (performCheck pn upstream now this) =
       Some \<lparr>available = available stock, message = message stock, timestamp = now\<rparr>"
  by (simp add: performCheck_def completeCheck_def Let_def handleStatusChange_def)



text \<open>
  Claim C1. A check whose fetch returns \<open>stock\<close> calls \<open>notifyStockAvailable\<close> (once,
  with \<open>stock\<close>) if and only if the status changed and \<open>stock\<close> is available, or there
  is no previous status and \<open>stock\<close> is available; a check whose fetch fails calls it not
  at all. In particular a change from available to unavailable, and a repeat of the same
  status, send nothing.
\<close>

theorem notification_iff:
  "(fst (checkAvailability pn upstream 0 \<lparr>attempts = 0, delays = []\<rparr>) = Inr stock \<longrightarrow>
      notified (performCheck pn upstream now this) =
        (if (detectStatusChange this stock \<and> available stock) \<or>
            (lastKnownStatus this = None \<and> available stock)
         then notified this @ [stock] else notified this)) \<and>
   (fst (checkAvailability pn upstream 0 \<lparr>attempts = 0, delays = []\<rparr>) = Inl err \<longrightarrow>
      notified (performCheck pn upstream now this) = notified this) \<and>
   (fst (checkAvailability pn upstream 0 \<lparr>attempts = 0, delays = []\<rparr>) = Inr stock \<and>
    lastKnownStatus this = Some previous \<and> available previous \<and> \<not> available stock \<longrightarrow>
      notified (performCheck pn upstream now this) = notified this) \<and>
   (fst (checkAvailability pn upstream 0 \<lparr>attempts = 0, delays = []\<rparr>) = Inr stock \<and>
    lastKnownStatus this = Some previous \<and> available previous = available stock \<and>
    message previous = message stock \<longrightarrow>
      notified (performCheck pn upstream now this) = notified this)"
  by (auto simp: performCheck_def notified_completeCheck completeCheck_failed
      detectStatusChange_def beginCheck_def Let_def)

text \<open>
  The theorem of C1 on the sequences of checks [unavailable], [available],
  [unavailable, available], [available, available], [available, unavailable] and
  [available, failed fetch], from a new monitor.
\<close>

theorem notification_iff_witness:
  "notified (performChecks ''MFYM4X/A''
      [(''2025-01-01T00:00:00.000Z'', upstreamQuoting ''MFYM4X/A'' ''Currently unavailable'')]
      (newMonitor 300000)) = [] \<and>
   notified (performChecks ''MFYM4X/A''
      [(''2025-01-01T00:00:00.000Z'', upstreamQuoting ''MFYM4X/A'' ''Available Today'')]
      (newMonitor 300000)) = [quoted ''MFYM4X/A'' ''Available Today'' True] \<and>
   notified (performChecks ''MFYM4X/A''
      [(''2025-01-01T00:00:00.000Z'', upstreamQuoting ''MFYM4X/A'' ''Currently unavailable''),
       (''2025-01-01T00:05:00.000Z'', upstreamQuoting ''MFYM4X/A'' ''Available Today'')]
      (newMonitor 300000)) = [quoted ''MFYM4X/A'' ''Available Today'' True] \<and>
   notified (performChecks ''MFYM4X/A''
      [(''2025-01-01T00:00:00.000Z'', upstreamQuoting ''MFYM4X/A'' ''Available Today''),
       (''2025-01-01T00:05:00.000Z'', upstreamQuoting ''MFYM4X/A'' ''Available Today'')]
      (newMonitor 300000)) = [quoted ''MFYM4X/A'' ''Available Today'' True] \<and>
   notified (performChecks ''MFYM4X/A''
      [(''2025-01-01T00:00:00.000Z'', upstreamQuoting ''MFYM4X/A'' ''Available Today''),
       (''2025-01-01T00:05:00.000Z'', upstreamQuoting ''MFYM4X/A'' ''Currently unavailable'')]
      (newMonitor 300000)) = [quoted ''MFYM4X/A'' ''Available Today'' True] \<and>
   notified (performChecks ''MFYM4X/A''
      [(''2025-01-01T00:00:00.000Z'', upstreamQuoting ''MFYM4X/A'' ''Available Today''),
       (''2025-01-01T00:05:00.000Z'', alwaysMeets (Failed ''net::ERR_CONNECTION_RESET''))]
      (newMonitor 300000)) = [quoted ''MFYM4X/A'' ''Available Today'' True]"
proof -
  let ?pn = "''MFYM4X/A''"
  let ?t0 = "''2025-01-01T00:00:00.000Z''"
  let ?t1 = "''2025-01-01T00:05:00.000Z''"
  let ?upU = "upstreamQuoting ?pn ''Currently unavailable''"
  let ?upA = "upstreamQuoting ?pn ''Available Today''"
  let ?upF = "alwaysMeets (Failed ''net::ERR_CONNECTION_RESET'')"
  let ?U = "quoted ?pn ''Currently unavailable'' False"
  let ?A = "quoted ?pn ''Available Today'' True"
  let ?w0 = "newMonitor 300000"
  let ?wU = "performCheck ?pn ?upU ?t0 ?w0"
  let ?wA = "performCheck ?pn ?upA ?t0 ?w0"
  let ?prevU = "\<lparr>available = False, message = JStr ''Currently unavailable'', timestamp = ?t0\<rparr>"
  let ?prevA = "\<lparr>available = True, message = JStr ''Available Today'', timestamp = ?t0\<rparr>"
  note fU = fetch_unavailable [of ?pn]
  note fA = fetch_available [of ?pn]
  note fF = fetch_reset [of ?pn]
  have first: "lastKnownStatus ?w0 = None" and none: "notified ?w0 = []"
    by (simp_all add: newMonitor_def)
  have lastU: "lastKnownStatus ?wU = Some ?prevU"
    by (simp add: lastKnownStatus_performCheck [OF fU] quoted_def)
  have lastA: "lastKnownStatus ?wA = Some ?prevA"
    by (simp add: lastKnownStatus_performCheck [OF fA] quoted_def)
  have nU: "notified ?wU = []"
    using notification_iff [where pn = ?pn and upstream = ?upU and stock = ?U and now = ?t0 and this = ?w0,
        THEN conjunct1] fU first none
    by (simp add: quoted_def)
  have nA: "notified ?wA = [?A]"
    using notification_iff [where pn = ?pn and upstream = ?upA and stock = ?A and now = ?t0 and this = ?w0,
        THEN conjunct1] fA first none
    by (simp add: quoted_def)
  have changed: "detectStatusChange ?wU ?A"
    by (simp add: detectStatusChange_def lastU quoted_def)
  have nUA: "notified (performCheck ?pn ?upA ?t1 ?wU) = [?A]"
    using notification_iff [where pn = ?pn and upstream = ?upA and stock = ?A and now = ?t1 and this = ?wU,
        THEN conjunct1] fA changed nU
    by (simp add: quoted_def)
  have nAA: "notified (performCheck ?pn ?upA ?t1 ?wA) = [?A]"
    using notification_iff [where pn = ?pn and upstream = ?upA and stock = ?A and now = ?t1 and this = ?wA
        and previous = ?prevA, THEN conjunct2, THEN conjunct2, THEN conjunct2] fA lastA nA
    by (simp add: quoted_def)
  have nAU: "notified (performCheck ?pn ?upU ?t1 ?wA) = [?A]"
    using notification_iff [where pn = ?pn and upstream = ?upU and stock = ?U and now = ?t1 and this = ?wA
        and previous = ?prevA, THEN conjunct2, THEN conjunct2, THEN conjunct1] fU lastA nA
    by (simp add: quoted_def)
  have nAF: "notified (performCheck ?pn ?upF ?t1 ?wA) = [?A]"
    using notification_iff [where pn = ?pn and upstream = ?upF and now = ?t1 and this = ?wA
        and err = "''Request failed: net::ERR_CONNECTION_RESET''", THEN conjunct2, THEN conjunct1]
      fF nA
    by simp
  from nU nA nUA nAA nAU nAF show ?thesis
    by simp
qed

text \<open>
  Claim C5. A check whose \<open>checkAvailability\<close> throws (after its retries; a parse
  failure is thrown by \<open>checkAvailability\<close> too) leaves \<open>lastKnownStatus\<close> as it was,
  sends no notification, has incremented \<open>checkCount\<close> by exactly one, and leaves
  \<open>isRunning\<close>, \<open>intervalId\<close> and the armed timers as they were.
\<close>

theorem failed_check_skipped:
  "fst (checkAvailability pn upstream 0 \<lparr>attempts = 0, delays = []\<rparr>) = Inl err \<Longrightarrow>
     lastKnownStatus (performCheck pn upstream now this) = lastKnownStatus this \<and>
     notified (performCheck pn upstream now this) = notified this \<and>
     checkCount (performCheck pn upstream now this) = checkCount this + 1 \<and>
     isRunning (performCheck pn upstream now this) = isRunning this \<and>
     intervalId (performCheck pn upstream now this) = intervalId this \<and>
     timers (performCheck pn upstream now this) = timers this"
  by (simp add: performCheck_def completeCheck_failed beginCheck_def)

text \<open>
  The theorem of C5 at an upstream whose payload is \<open>null\<close> at every attempt, so that
  the parser throws four times, on a running monitor.
\<close>

theorem failed_check_skipped_witness:
  "fst (checkAvailability ''MFYM4X/A'' (alwaysMeets (Response 200 (Inr JNull))) 0
          \<lparr>attempts = 0, delays = []\<rparr>)
     = Inl (''Request failed: Response parsing failed: '' @ cannotRead ''null'' ''body'') \<and>
   performCheck ''MFYM4X/A'' (alwaysMeets (Response 200 (Inr JNull))) ''2025-01-01T00:05:00.000Z''
     \<lparr>intervalMs = 300000, isRunning = True, intervalId = Some 1,
      lastKnownStatus = Some \<lparr>available = False, message = JStr ''Currently unavailable'',
                               timestamp = ''2025-01-01T00:00:00.000Z''\<rparr>,
      checkCount = 1, timers = [1], nextTimer = 2, notified = [], cleanups = 1\<rparr>
   = \<lparr>intervalMs = 300000, isRunning = True, intervalId = Some 1,
      lastKnownStatus = Some \<lparr>available = False, message = JStr ''Currently unavailable'',
                               timestamp = ''2025-01-01T00:00:00.000Z''\<rparr>,
      checkCount = 2, timers = [1], nextTimer = 2, notified = [], cleanups = 2\<rparr>"
proof -
  let ?up = "alwaysMeets (Response 200 (Inr JNull))"
  let ?w = "\<lparr>intervalMs = 300000, isRunning = True, intervalId = Some 1,
      lastKnownStatus = Some \<lparr>available = False, message = JStr ''Currently unavailable'',
                               timestamp = ''2025-01-01T00:00:00.000Z''\<rparr>,
      checkCount = 1, timers = [1], nextTimer = 2, notified = [], cleanups = 1\<rparr>"
  let ?after = "performCheck ''MFYM4X/A'' ?up ''2025-01-01T00:05:00.000Z'' ?w"
  note h = fetch_null_payload [of "''MFYM4X/A''"]
  have rest: "intervalMs ?after = 300000 \<and> nextTimer ?after = 2 \<and> cleanups ?after = 2"
    by (simp add: performCheck_def h completeCheck_failed beginCheck_def)
  from failed_check_skipped [OF h, of "''2025-01-01T00:05:00.000Z''" ?w] rest
  have "?after = \<lparr>intervalMs = 300000, isRunning = True, intervalId = Some 1,
      lastKnownStatus = Some \<lparr>available = False, message = JStr ''Currently unavailable'',
                               timestamp = ''2025-01-01T00:00:00.000Z''\<rparr>,
      checkCount = 2, timers = [1], nextTimer = 2, notified = [], cleanups = 2\<rparr>"
    by (intro monitor.equality) simp_all
  with h show ?thesis
    by simp
qed

text \<open>
  Claim C6, as amended. \<open>start\<close> on a running monitor and \<open>stop\<close> on a stopped monitor
  return normally, with no exception, and leave the state as it was.
\<close>

theorem lifecycle_misuse_returns:
  "(isRunning this \<longrightarrow> start this = Inr this) \<and>
   (\<not> isRunning this \<longrightarrow> stop this = Inr this)"
  by (simp add: start_def stop_def)

text \<open>
  Claim C6, as stated, fails: the second of two calls of \<open>start\<close> returns normally with
  the state unchanged, as does \<open>stop\<close> on a new monitor; neither throws.
\<close>

theorem lifecycle_misuse_counterexample:
  "start (newMonitor 300000) =
     Inr \<lparr>intervalMs = 300000, isRunning = True, intervalId = Some 1, lastKnownStatus = None,
          checkCount = 1, timers = [1], nextTimer = 2, notified = [], cleanups = 0\<rparr> \<and>
   start \<lparr>intervalMs = 300000, isRunning = True, intervalId = Some 1, lastKnownStatus = None,
          checkCount = 1, timers = [1], nextTimer = 2, notified = [], cleanups = 0\<rparr> =
     Inr \<lparr>intervalMs = 300000, isRunning = True, intervalId = Some 1, lastKnownStatus = None,
          checkCount = 1, timers = [1], nextTimer = 2, notified = [], cleanups = 0\<rparr> \<and>
   stop (newMonitor 300000) = Inr (newMonitor 300000)"
  by (simp add: start_def stop_def newMonitor_def beginCheck_def Let_def)

text \<open>
  The theorem of C6 at the monitor as \<open>start\<close> leaves it, and at a new monitor.
\<close>

theorem lifecycle_misuse_returns_witness:
  "isRunning \<lparr>intervalMs = 300000, isRunning = True, intervalId = Some 1, lastKnownStatus = None,
          checkCount = 1, timers = [1], nextTimer = 2, notified = [], cleanups = 0\<rparr> \<and>
   start \<lparr>intervalMs = 300000, isRunning = True, intervalId = Some 1, lastKnownStatus = None,
          checkCount = 1, timers = [1], nextTimer = 2, notified = [], cleanups = 0\<rparr> =
     Inr \<lparr>intervalMs = 300000, isRunning = True, intervalId = Some 1, lastKnownStatus = None,
          checkCount = 1, timers = [1], nextTimer = 2, notified = [], cleanups = 0\<rparr> \<and>
   \<not> isRunning (newMonitor 300000) \<and>
   stop (newMonitor 300000) = Inr (newMonitor 300000)"
proof -
  let ?r = "\<lparr>intervalMs = 300000, isRunning = True, intervalId = Some 1, lastKnownStatus = None,
          checkCount = 1, timers = [1], nextTimer = 2, notified = [], cleanups = 0\<rparr>"
  have a: "isRunning ?r"
    by simp
  have b: "\<not> isRunning (newMonitor 300000)"
    by (simp add: newMonitor_def)
  from lifecycle_misuse_returns [of ?r] lifecycle_misuse_returns [of "newMonitor 300000"] a b
  show ?thesis by simp
qed

text \<open>
  Claim C10. \<open>start\<close> on a running monitor returns with \<open>isRunning\<close>, \<open>checkCount\<close>,
  \<open>lastKnownStatus\<close>, \<open>intervalId\<close> and the armed timers unchanged: no timer is added
  and no timer handle is used up.
\<close>

theorem start_while_running_frame:
  "isRunning this \<Longrightarrow>
     (\<exists>after. start this = Inr after \<and>
        isRunning after \<and>
        checkCount after = checkCount this \<and>
        lastKnownStatus after = lastKnownStatus this \<and>
        intervalId after = intervalId this \<and>
        timers after = timers this \<and>
        nextTimer after = nextTimer this)"
  by (simp add: start_def)

text \<open>
  The theorem of C10 at the monitor as \<open>start\<close> leaves it.
\<close>

theorem start_while_running_frame_witness:
  "isRunning \<lparr>intervalMs = 300000, isRunning = True, intervalId = Some 1, lastKnownStatus = None,
          checkCount = 1, timers = [1], nextTimer = 2, notified = [], cleanups = 0\<rparr> \<and>
   (\<exists>after.
      start \<lparr>intervalMs = 300000, isRunning = True, intervalId = Some 1, lastKnownStatus = None,
          checkCount = 1, timers = [1], nextTimer = 2, notified = [], cleanups = 0\<rparr> = Inr after \<and>
      isRunning after \<and> checkCount after = 1 \<and> lastKnownStatus after = None \<and>
      intervalId after = Some 1 \<and> timers after = [1] \<and> nextTimer after = 2)"
proof -
  let ?r = "\<lparr>intervalMs = 300000, isRunning = True, intervalId = Some 1, lastKnownStatus = None,
          checkCount = 1, timers = [1], nextTimer = 2, notified = [], cleanups = 0\<rparr>"
  have a: "isRunning ?r"
    by simp
  from start_while_running_frame [OF a] a show ?thesis
    by simp
qed

end
